theory Spec2Isabelle
  imports Main "HOL-Library.Sublist" "HOL-Library.AList"
begin

section \<open>Python values\<close>

text \<open>
  Exceptions of the Python code are values. \<open>ValueError\<close> carries its message, since the
  code tells its failures apart by it. \<open>DelegateError\<close> stands for any exception raised
  inside an external collaborator (restic, docker, the database variants).
\<close>

datatype error =
    ValueError string
  | TypeError
  | KeyError
  | AttributeError
  | UnboundLocalError
  | DelegateError string

text \<open>
  A Python \<open>dict\<close> is an association list in insertion order; \<open>d.get(k)\<close> is
  \<open>map_of d k\<close>, with \<open>None\<close> for Python's \<open>None\<close>.
\<close>

type_synonym ('k, 'v) dict = "('k \<times> 'v) list"

definition dict_get :: "('k, 'v) dict \<Rightarrow> 'k \<Rightarrow> 'v option" where
  "dict_get d k = map_of d k"

text \<open>Truthiness of a dict or None (\<open>not d\<close> is true for None and for the empty dict).\<close>

fun dict_truthy :: "('k, 'v) dict option \<Rightarrow> bool" where
  "dict_truthy None = False"
| "dict_truthy (Some d) = (d \<noteq> [])"

text \<open>Truthiness of a list or None, as in \<open>if self._include:\<close>.\<close>

fun list_truthy :: "'a list option \<Rightarrow> bool" where
  "list_truthy None = False"
| "list_truthy (Some xs) = (xs \<noteq> [])"

subsection \<open>Strings\<close>

text \<open>\<open>str.isspace\<close> on the ASCII range: TAB, LF, VT, FF, CR, FS, GS, RS, US and space.\<close>

definition is_space :: "char \<Rightarrow> bool" where
  "is_space c =
     (c = CHR 0x09 \<or> c = CHR 0x0A \<or> c = CHR 0x0B \<or> c = CHR 0x0C \<or> c = CHR 0x0D \<or>
      c = CHR 0x1C \<or> c = CHR 0x1D \<or> c = CHR 0x1E \<or> c = CHR 0x1F \<or> c = CHR 0x20)"

definition strip :: "string \<Rightarrow> string" where
  "strip s = rev (dropWhile is_space (rev (dropWhile is_space s)))"

text \<open>\<open>value.split(',')\<close>: the pieces between the separators; never the empty list.\<close>

fun split_acc :: "char \<Rightarrow> string \<Rightarrow> string \<Rightarrow> string list" where
  "split_acc sep acc [] = [rev acc]"
| "split_acc sep acc (c # cs) =
     (if c = sep then rev acc # split_acc sep [] cs else split_acc sep (c # acc) cs)"

definition split :: "string \<Rightarrow> char \<Rightarrow> string list" where
  "split s sep = split_acc sep [] s"

text \<open>\<open>pattern in source\<close> on strings: \<open>pattern\<close> occurs in \<open>source\<close> as a contiguous run.\<close>

fun str_contains :: "string \<Rightarrow> string \<Rightarrow> bool" where
  "str_contains p [] = (p = [])"
| "str_contains p (c # cs) = (if prefix p (c # cs) then True else str_contains p cs)"

section \<open>Raw runtime records\<close>

text \<open>
  The records \<open>utils.list_containers()\<close> returns. A block the constructor reads with
  \<open>data.get\<close> and then tests may be absent (\<open>None\<close>); \<open>Id\<close>, \<open>Name\<close> and the
  fields of a mount are strings, as the accessors' annotations (\<open>-> str\<close>) say.
\<close>

record raw_mount =
  mnt_Type :: string
  mnt_Name :: string
  mnt_Source :: string
  mnt_Destination :: string

record raw_config =
  cfg_Labels :: "(string, string) dict option"
  cfg_Image :: "string option"
  cfg_Env :: "string list option"

record raw_container =
  raw_Id :: string
  raw_Name :: string
  raw_State :: "(string, bool) dict option"
  raw_Config :: "raw_config option"
  raw_Mounts :: "raw_mount list option"

section \<open>Mount\<close>

datatype mount = Mount raw_mount

fun source :: "mount \<Rightarrow> string" where
  "source (Mount d) = mnt_Source d"

fun destination :: "mount \<Rightarrow> string" where
  "destination (Mount d) = mnt_Destination d"

section \<open>Container\<close>

text \<open>
  The object's attributes \<open>_data\<close>, \<open>_state\<close>, \<open>_config\<close>, \<open>_mounts\<close>, \<open>_labels\<close>,
  \<open>_include\<close> and \<open>_exclude\<close>. A mount's back reference to its container is left out.
\<close>

record container =
  c_data :: raw_container
  c_state :: "(string, bool) dict"
  c_config :: raw_config
  c_mounts :: "mount list"
  c_labels :: "(string, string) dict"
  c_include :: "string list option"
  c_exclude :: "string list option"

text \<open>
  \<open>get_label(name, default=None)\<close> returns \<open>self._labels.get(name, None)\<close>: the
  parameter \<open>default\<close> is accepted and not used.
\<close>

definition labels_get :: "(string, string) dict \<Rightarrow> string \<Rightarrow> string option \<Rightarrow> string option" where
  "labels_get ls name dflt = (case dict_get ls name of None \<Rightarrow> None | Some v \<Rightarrow> Some v)"

definition get_label :: "container \<Rightarrow> string \<Rightarrow> string option \<Rightarrow> string option" where
  "get_label c name dflt = labels_get (c_labels c) name dflt"

text \<open>\<open>_parse_pattern\<close>: None for None, the empty string and a string of spaces only.\<close>

definition parse_pattern :: "string option \<Rightarrow> string list option" where
  "parse_pattern v =
     (case v of
        None \<Rightarrow> None
      | Some s \<Rightarrow>
          if s = [] then None
          else if length (strip s) = 0 then None
          else Some (split (strip s) CHR '',''))"

text \<open>
  \<open>Container.__init__\<close>. The mounts are built first, so an absent mount list raises
  \<open>TypeError\<close> (iterating None) before any of the three checks.
\<close>

definition Container :: "raw_container \<Rightarrow> error + container" where
  "Container d =
     (case raw_Mounts d of
        None \<Rightarrow> Inl TypeError
      | Some ms \<Rightarrow>
          if \<not> dict_truthy (raw_State d) then Inl (ValueError ''Container meta missing State'')
          else
            (case raw_Config d of
               None \<Rightarrow> Inl (ValueError ''Container meta missing Config'')
             | Some cfg \<Rightarrow>
                 (case cfg_Labels cfg of
                    None \<Rightarrow> Inl (ValueError ''Container meta missing Config->Labels'')
                  | Some ls \<Rightarrow>
                      Inr \<lparr> c_data = d,
                            c_state = (case raw_State d of None \<Rightarrow> [] | Some st \<Rightarrow> st),
                            c_config = cfg,
                            c_mounts = map Mount ms,
                            c_labels = ls,
                            c_include = parse_pattern
                              (labels_get ls ''restic-compose-backup.volumes.include'' None),
                            c_exclude = parse_pattern
                              (labels_get ls ''restic-compose-backup.volumes.exclude'' None) \<rparr>)))"

text \<open>The \<open>MalformedRecord\<close> errors of the specification: the constructor's three messages.\<close>

definition MalformedRecord :: "error \<Rightarrow> bool" where
  "MalformedRecord e =
     (e = ValueError ''Container meta missing State'' \<or>
      e = ValueError ''Container meta missing Config'' \<or>
      e = ValueError ''Container meta missing Config->Labels'')"

definition container_id :: "container \<Rightarrow> string" where
  "container_id c = raw_Id (c_data c)"

definition is_backup_process_container :: "container \<Rightarrow> bool" where
  "is_backup_process_container c =
     (get_label c ''restic-compose-backup.backup_process'' None = Some ''True'')"

definition is_running :: "container \<Rightarrow> bool" where
  "is_running c = (case dict_get (c_state c) ''Running'' of None \<Rightarrow> False | Some b \<Rightarrow> b)"

definition service_name :: "container \<Rightarrow> string option" where
  "service_name c = get_label c ''com.docker.compose.service'' (Some '''')"

definition project_name :: "container \<Rightarrow> string option" where
  "project_name c = get_label c ''com.docker.compose.project'' (Some '''')"

definition is_oneoff :: "container \<Rightarrow> bool" where
  "is_oneoff c = (get_label c ''com.docker.compose.oneoff'' (Some ''False'') = Some ''True'')"

definition get_config_Image :: "container \<Rightarrow> string option" where
  "get_config_Image c = cfg_Image (c_config c)"

definition image :: "container \<Rightarrow> string option" where
  "image c = get_config_Image c"

definition environment :: "container \<Rightarrow> string list" where
  "environment c = (case cfg_Env (c_config c) of None \<Rightarrow> [] | Some e \<Rightarrow> e)"

text \<open>\<open>__eq__\<close>: never equal to None, otherwise equal ids.\<close>

fun container_eq :: "container \<Rightarrow> container option \<Rightarrow> bool" where
  "container_eq c None = False"
| "container_eq c (Some other) = (container_id c = container_id other)"

text \<open>
  \<open>filter_mounts\<close>. \<open>pattern_loop\<close> is the inner \<open>for pattern in ...\<close>: True when it
  is left by \<open>break\<close>, False when it runs to its \<open>else\<close>. The two outer loops append
  to \<open>filtered\<close>.
\<close>

fun pattern_loop :: "string list \<Rightarrow> string \<Rightarrow> bool" where
  "pattern_loop [] src = False"
| "pattern_loop (pattern # ps) src =
     (if str_contains pattern src then True else pattern_loop ps src)"

fun include_loop :: "string list \<Rightarrow> mount list \<Rightarrow> mount list \<Rightarrow> mount list" where
  "include_loop ps [] filtered = filtered"
| "include_loop ps (m # ms) filtered =
     (if pattern_loop ps (source m) then include_loop ps ms (filtered @ [m])
      else include_loop ps ms filtered)"

fun exclude_loop :: "string list \<Rightarrow> mount list \<Rightarrow> mount list \<Rightarrow> mount list" where
  "exclude_loop ps [] filtered = filtered"
| "exclude_loop ps (m # ms) filtered =
     (if pattern_loop ps (source m) then exclude_loop ps ms filtered
      else exclude_loop ps ms (filtered @ [m]))"

fun pattern_list :: "string list option \<Rightarrow> string list" where
  "pattern_list None = []"
| "pattern_list (Some ps) = ps"

definition filter_mounts :: "container \<Rightarrow> mount list" where
  "filter_mounts c =
     (if list_truthy (c_include c) then
        include_loop (pattern_list (c_include c)) (c_mounts c) []
      else if list_truthy (c_exclude c) then
        exclude_loop (pattern_list (c_exclude c)) (c_mounts c) []
      else c_mounts c)"

section \<open>RunningContainers\<close>

record running_containers =
  containers :: "container list"
  this_container :: container
  backup_process_container :: "container option"

text \<open>
  The first loop of \<open>RunningContainers.__init__\<close>: every record whose id starts with
  \<open>os.environ['HOSTNAME']\<close> is constructed and assigned to \<open>this_container\<close>, a later
  one replacing an earlier one. Reading an unset \<open>HOSTNAME\<close> raises \<open>KeyError\<close>.
\<close>

fun find_this_container ::
  "string option \<Rightarrow> raw_container list \<Rightarrow> container option \<Rightarrow> error + container option" where
  "find_this_container hostname [] this = Inr this"
| "find_this_container hostname (container_data # rest) this =
     (case hostname of
        None \<Rightarrow> Inl KeyError
      | Some h \<Rightarrow>
          if prefix h (raw_Id container_data) then
            (case Container container_data of
               Inl e \<Rightarrow> Inl e
             | Inr c \<Rightarrow> find_this_container hostname rest (Some c))
          else find_this_container hostname rest this)"

text \<open>
  The second loop: every record is constructed; one carrying the marker label is assigned
  to \<open>backup_process_container\<close>; one of this project that is not one-off and whose id is
  not this container's is appended to \<open>containers\<close>.
\<close>

fun gather ::
  "container \<Rightarrow> raw_container list \<Rightarrow> container option \<Rightarrow> container list \<Rightarrow>
     error + (container option \<times> container list)" where
  "gather this [] bpc cs = Inr (bpc, cs)"
| "gather this (container_data # rest) bpc cs =
     (case Container container_data of
        Inl e \<Rightarrow> Inl e
      | Inr c \<Rightarrow>
          let bpc' = (if is_backup_process_container c then Some c else bpc);
              cs' = (if project_name c = project_name this \<and> \<not> is_oneoff c
                     then (if container_id c \<noteq> container_id this then cs @ [c] else cs)
                     else cs)
          in gather this rest bpc' cs')"

text \<open>
  \<open>RunningContainers()\<close>, with the host name variable and the result of
  \<open>utils.list_containers()\<close> as arguments.
\<close>

definition RunningContainers ::
  "string option \<Rightarrow> raw_container list \<Rightarrow> error + running_containers" where
  "RunningContainers hostname all_containers =
     (case find_this_container hostname all_containers None of
        Inl e \<Rightarrow> Inl e
      | Inr None \<Rightarrow> Inl (ValueError ''Cannot find metadata for backup container'')
      | Inr (Some this) \<Rightarrow>
          (case gather this all_containers None [] of
             Inl e \<Rightarrow> Inl e
           | Inr (bpc, cs) \<Rightarrow>
               Inr \<lparr> containers = cs, this_container = this,
                     backup_process_container = bpc \<rparr>))"

definition backup_process_running :: "running_containers \<Rightarrow> bool" where
  "backup_process_running rc = (backup_process_container rc \<noteq> None)"

section \<open>External collaborators\<close>

text \<open>
  The code outside this model, as parameters: \<open>utils.is_true\<close>; the \<open>pathlib\<close> join
  with \<open>utils.strip_root\<close> of \<open>volumes_for_backup\<close>; and what each call of
  \<open>restic\<close>, \<open>backup_runner\<close> and a database variant gives: an exit code, or an
  exception raised (\<open>Inl\<close>). \<open>alerts.send\<close> and logging return and are not parameters.
\<close>

datatype instance_kind = MariadbContainer | MysqlContainer | PostgresContainer | BaseContainer

type_synonym volume_dict = "(string, string \<times> string) dict"

record run_args =
  run_image :: "string option"
  run_command :: string
  run_volumes :: volume_dict
  run_environment :: "string list"
  run_source_container_id :: string
  run_labels :: "(string, string option) dict"

record delegates =
  utils_is_true :: "string option \<Rightarrow> bool"
  pathlib_bind :: "string \<Rightarrow> string \<Rightarrow> string \<Rightarrow> string"
  restic_init_repo :: "error option"
  restic_backup_files :: "error + int"
  restic_forget :: "error + int"
  restic_prune :: "error + int"
  backup_runner_run :: "run_args \<Rightarrow> error + int"
  read_backup_log :: "error + string"
  instance_ping :: "instance_kind \<Rightarrow> container \<Rightarrow> error + int"
  instance_backup :: "instance_kind \<Rightarrow> container \<Rightarrow> error + int"

text \<open>The calls made to the collaborators, in order, are the trace of a command.\<close>

datatype event =
    InitRepo
  | Run run_args
  | AlertsSend string
  | Ping instance_kind string
  | BackupFiles
  | Backup instance_kind string
  | Forget
  | Prune

text \<open>How a command ends: it returns, calls \<open>exit(n)\<close>, or an exception leaves it.\<close>

datatype outcome = Returned | Exited int | Raised error

text \<open>The exit code of the process: 0 after a return, 1 after an uncaught exception.\<close>

fun exit_code :: "outcome \<Rightarrow> int" where
  "exit_code Returned = 0"
| "exit_code (Exited n) = n"
| "exit_code (Raised e) = 1"

section \<open>Backup eligibility\<close>

definition volume_backup_enabled :: "delegates \<Rightarrow> container \<Rightarrow> bool" where
  "volume_backup_enabled dl c = utils_is_true dl (get_label c ''restic-compose-backup.volumes'' None)"

definition mysql_backup_enabled :: "delegates \<Rightarrow> container \<Rightarrow> bool" where
  "mysql_backup_enabled dl c = utils_is_true dl (get_label c ''restic-compose-backup.mysql'' None)"

definition mariadb_backup_enabled :: "delegates \<Rightarrow> container \<Rightarrow> bool" where
  "mariadb_backup_enabled dl c = utils_is_true dl (get_label c ''restic-compose-backup.mariadb'' None)"

definition postgresql_backup_enabled :: "delegates \<Rightarrow> container \<Rightarrow> bool" where
  "postgresql_backup_enabled dl c = utils_is_true dl (get_label c ''restic-compose-backup.postgres'' None)"

definition database_backup_enabled :: "delegates \<Rightarrow> container \<Rightarrow> bool" where
  "database_backup_enabled dl c =
     (mysql_backup_enabled dl c \<or> mariadb_backup_enabled dl c \<or> postgresql_backup_enabled dl c)"

definition backup_enabled :: "delegates \<Rightarrow> container \<Rightarrow> bool" where
  "backup_enabled dl c = (volume_backup_enabled dl c \<or> database_backup_enabled dl c)"

text \<open>
  \<open>instance\<close>: the class of the object returned, \<open>None\<close> where the property falls
  off its end without a \<open>return\<close>.
\<close>

definition instance_of :: "delegates \<Rightarrow> container \<Rightarrow> instance_kind option" where
  "instance_of dl c =
     (if database_backup_enabled dl c then
        (if mariadb_backup_enabled dl c then Some MariadbContainer
         else if mysql_backup_enabled dl c then Some MysqlContainer
         else if postgresql_backup_enabled dl c then Some PostgresContainer
         else None)
      else Some BaseContainer)"

definition containers_for_backup :: "delegates \<Rightarrow> running_containers \<Rightarrow> container list" where
  "containers_for_backup dl rc = filter (backup_enabled dl) (containers rc)"

section \<open>Volume mappings\<close>

text \<open>\<open>d[k] = v\<close> is \<open>AList.update k v d\<close>; \<open>d.update(other)\<close> stores every item of \<open>other\<close>.\<close>

definition dict_update :: "('k, 'v) dict \<Rightarrow> ('k, 'v) dict \<Rightarrow> ('k, 'v) dict" where
  "dict_update d other = foldl (\<lambda>acc kv. AList.update (fst kv) (snd kv) acc) d other"

definition volumes :: "container \<Rightarrow> volume_dict" where
  "volumes c =
     foldl (\<lambda>vs m. AList.update (source m) (destination m, ''rw'') vs) [] (c_mounts c)"

text \<open>
  \<open>volumes_for_backup\<close>: \<open>Path(source_prefix) / self.service_name\<close> raises
  \<open>TypeError\<close> when the service name is None.
\<close>

fun volumes_for_backup_loop ::
  "delegates \<Rightarrow> container \<Rightarrow> string \<Rightarrow> string \<Rightarrow> mount list \<Rightarrow> volume_dict \<Rightarrow>
     error + volume_dict" where
  "volumes_for_backup_loop dl c source_prefix mode [] vs = Inr vs"
| "volumes_for_backup_loop dl c source_prefix mode (m # ms) vs =
     (case service_name c of
        None \<Rightarrow> Inl TypeError
      | Some sn \<Rightarrow>
          volumes_for_backup_loop dl c source_prefix mode ms
            (AList.update (source m) (pathlib_bind dl source_prefix sn (destination m), mode) vs))"

definition volumes_for_backup ::
  "delegates \<Rightarrow> container \<Rightarrow> string \<Rightarrow> string \<Rightarrow> error + volume_dict" where
  "volumes_for_backup dl c source_prefix mode =
     volumes_for_backup_loop dl c source_prefix mode (filter_mounts c) []"

fun generate_backup_mounts_loop ::
  "delegates \<Rightarrow> string \<Rightarrow> container list \<Rightarrow> volume_dict \<Rightarrow> error + volume_dict" where
  "generate_backup_mounts_loop dl dest_prefix [] mounts = Inr mounts"
| "generate_backup_mounts_loop dl dest_prefix (c # cs) mounts =
     (if volume_backup_enabled dl c then
        (case volumes_for_backup dl c dest_prefix ''ro'' of
           Inl e \<Rightarrow> Inl e
         | Inr vs \<Rightarrow> generate_backup_mounts_loop dl dest_prefix cs (dict_update mounts vs))
      else generate_backup_mounts_loop dl dest_prefix cs mounts)"

definition generate_backup_mounts ::
  "delegates \<Rightarrow> running_containers \<Rightarrow> string \<Rightarrow> error + volume_dict" where
  "generate_backup_mounts dl rc dest_prefix =
     generate_backup_mounts_loop dl dest_prefix (containers_for_backup dl rc) []"

section \<open>The commands\<close>

text \<open>
  \<open>status\<close>: for every container for backup with a database label, its variant is
  pinged; an exception of \<open>ping\<close> is not caught. \<open>None.ping()\<close> raises
  \<open>AttributeError\<close>.
\<close>

fun status_loop :: "delegates \<Rightarrow> container list \<Rightarrow> event list \<times> error option" where
  "status_loop dl [] = ([], None)"
| "status_loop dl (c # cs) =
     (if database_backup_enabled dl c then
        (case instance_of dl c of
           None \<Rightarrow> ([], Some AttributeError)
         | Some k \<Rightarrow>
             (case instance_ping dl k c of
                Inl e \<Rightarrow> ([Ping k (container_id c)], Some e)
              | Inr ping \<Rightarrow>
                  (case status_loop dl cs of
                     (evs, r) \<Rightarrow> (Ping k (container_id c) # evs, r))))
      else status_loop dl cs)"

definition status :: "delegates \<Rightarrow> running_containers \<Rightarrow> event list \<times> error option" where
  "status dl rc = status_loop dl (containers_for_backup dl rc)"

text \<open>
  \<open>backup\<close>, the outer command. An exception of \<open>backup_runner.run\<close> is caught and
  alerted; a non-zero result is alerted with the contents of \<open>backup.log\<close>.
\<close>

definition backup :: "delegates \<Rightarrow> running_containers \<Rightarrow> event list \<times> outcome" where
  "backup dl rc =
     (if backup_process_running rc then
        ([], Raised (ValueError ''Backup process already running''))
      else
        (case restic_init_repo dl of
           Some e \<Rightarrow> ([InitRepo], Raised e)
         | None \<Rightarrow>
             (case generate_backup_mounts dl rc ''/volumes'' of
                Inl e \<Rightarrow> ([InitRepo], Raised e)
              | Inr mounts \<Rightarrow>
                  let args = \<lparr> run_image = image (this_container rc),
                               run_command = ''restic-compose-backup start-backup-process'',
                               run_volumes = dict_update (volumes (this_container rc)) mounts,
                               run_environment = environment (this_container rc),
                               run_source_container_id = container_id (this_container rc),
                               run_labels =
                                 [(''restic-compose-backup.backup_process'', Some ''True''),
                                  (''com.docker.compose.project'',
                                   project_name (this_container rc))] \<rparr>
                  in
                    (case backup_runner_run dl args of
                       Inl ex \<Rightarrow>
                         ([InitRepo, Run args, AlertsSend ''Exception during backup''], Returned)
                     | Inr result \<Rightarrow>
                         if result \<noteq> 0 then
                           (case read_backup_log dl of
                              Inl e \<Rightarrow> ([InitRepo, Run args], Raised e)
                            | Inr body \<Rightarrow>
                                ([InitRepo, Run args,
                                  AlertsSend ''Backup process exited with non-zero code''],
                                 Returned))
                         else ([InitRepo, Run args], Returned)))))"

text \<open>
  \<open>cleanup\<close> returns the boolean \<open>forget_result == 0 and prune_result == 0\<close>.
\<close>

definition cleanup :: "delegates \<Rightarrow> event list \<times> (error + bool)" where
  "cleanup dl =
     (case restic_forget dl of
        Inl e \<Rightarrow> ([Forget], Inl e)
      | Inr forget_result \<Rightarrow>
          (case restic_prune dl of
             Inl e \<Rightarrow> ([Forget, Prune], Inl e)
           | Inr prune_result \<Rightarrow>
               ([Forget, Prune], Inr (forget_result = 0 \<and> prune_result = 0))))"

text \<open>
  The database loop of \<open>start_backup_process\<close>: every exception inside the \<open>try\<close>
  sets \<open>errors\<close>, and the loop goes on.
\<close>

fun database_loop :: "delegates \<Rightarrow> container list \<Rightarrow> bool \<Rightarrow> event list \<times> bool" where
  "database_loop dl [] errors = ([], errors)"
| "database_loop dl (c # cs) errors =
     (if database_backup_enabled dl c then
        (case instance_of dl c of
           None \<Rightarrow> database_loop dl cs True
         | Some k \<Rightarrow>
             (case database_loop dl cs
                     (case instance_backup dl k c of
                        Inl ex \<Rightarrow> True
                      | Inr result \<Rightarrow> if result \<noteq> 0 then True else errors) of
                (evs, errors') \<Rightarrow> (Backup k (container_id c) # evs, errors')))
      else database_loop dl cs errors)"

text \<open>
  Truthiness of \<open>backup_process_container\<close> (a container or None), and the test
  \<open>x is False\<close>, which no container and no None passes.
\<close>

fun container_truthy :: "container option \<Rightarrow> bool" where
  "container_truthy None = False"
| "container_truthy (Some c) = True"

fun is_False :: "container option \<Rightarrow> bool" where
  "is_False x = False"

text \<open>
  \<open>start_backup_process\<close>, the inner command. \<open>cannot_run_here\<close> is the condition of
  its first \<open>if\<close>, under which it logs an error and returns; the second disjunct is the
  chained comparison \<open>a == b is False\<close>, which Python reads as \<open>a == b and b is False\<close>.
  \<open>cleanup\<close> is called with the loop variable \<open>container\<close>, unbound when the loop
  over the containers for backup had nothing to run over. Its boolean result is compared with
  \<open>0\<close>: \<open>True != 0\<close> holds, \<open>False != 0\<close> does not.
\<close>

definition cannot_run_here :: "running_containers \<Rightarrow> bool" where
  "cannot_run_here rc =
     (\<not> container_truthy (backup_process_container rc)
      \<or> (container_eq (this_container rc) (backup_process_container rc)
          \<and> is_False (backup_process_container rc)))"

definition start_backup_process :: "delegates \<Rightarrow> running_containers \<Rightarrow> event list \<times> outcome" where
  "start_backup_process dl rc =
     (if cannot_run_here rc then ([], Returned)
      else
        (case status dl rc of
           (ev1, Some e) \<Rightarrow> (ev1, Raised e)
         | (ev1, None) \<Rightarrow>
             (case database_loop dl (containers_for_backup dl rc)
                     (case restic_backup_files dl of
                        Inl ex \<Rightarrow> True
                      | Inr vol_result \<Rightarrow> vol_result \<noteq> 0) of
                (ev2, errors) \<Rightarrow>
                  if errors then (ev1 @ [BackupFiles] @ ev2, Exited 1)
                  else if containers_for_backup dl rc = [] then
                    (ev1 @ [BackupFiles] @ ev2, Raised UnboundLocalError)
                  else
                    (case cleanup dl of
                       (ev3, Inl e) \<Rightarrow> (ev1 @ [BackupFiles] @ ev2 @ ev3, Raised e)
                     | (ev3, Inr result) \<Rightarrow>
                         if (of_bool result :: int) \<noteq> 0
                         then (ev1 @ [BackupFiles] @ ev2 @ ev3, Exited 1)
                         else (ev1 @ [BackupFiles] @ ev2 @ ev3, Returned)))))"

text \<open>A target failed: its call raised, or returned a non-zero exit code.\<close>

fun target_failed :: "error + int \<Rightarrow> bool" where
  "target_failed (Inl e) = True"
| "target_failed (Inr n) = (n \<noteq> 0)"

text \<open>A peer of \<open>this\<close>: the condition under which the second loop appends.\<close>

definition is_peer :: "container \<Rightarrow> container \<Rightarrow> bool" where
  "is_peer this c =
     (project_name c = project_name this \<and> \<not> is_oneoff c \<and> container_id c \<noteq> container_id this)"

section \<open>Sample inputs\<close>

text \<open>
  Records of a compose project \<open>app\<close>: the backup container itself, a second record
  whose id starts alike, a spawned backup-process container, a stopped container, a web
  service with an include pattern and two database services; and collaborators whose every
  call succeeds.
\<close>

definition sample_record :: "string \<Rightarrow> (string, string) dict \<Rightarrow> raw_mount list \<Rightarrow> raw_container" where
  "sample_record i ls ms =
     \<lparr> raw_Id = i, raw_Name = CHR ''/'' # i, raw_State = Some [(''Running'', True)],
       raw_Config = Some \<lparr> cfg_Labels = Some ls, cfg_Image = Some ''backup:latest'',
                            cfg_Env = Some [] \<rparr>,
       raw_Mounts = Some ms \<rparr>"

definition web_record :: raw_container where
  "web_record = sample_record ''0c1d2e3f'' [(''restic-compose-backup.volumes.include'', ''media'')]
     [\<lparr> mnt_Type = ''bind'', mnt_Name = '''', mnt_Source = ''/srv/files/media'',
         mnt_Destination = ''/srv/media'' \<rparr>,
      \<lparr> mnt_Type = ''bind'', mnt_Name = '''', mnt_Source = ''/srv/files/stuff'',
         mnt_Destination = ''/srv/stuff'' \<rparr>]"

definition self_record :: raw_container where
  "self_record = sample_record ''0c1d2e3f'' [(''com.docker.compose.project'', ''app'')] []"

definition twin_record :: raw_container where
  "twin_record = sample_record ''0c1d9a8b'' [(''com.docker.compose.project'', ''app'')] []"

definition process_record :: "string \<Rightarrow> raw_container" where
  "process_record i = sample_record i
     [(''com.docker.compose.project'', ''app''), (''restic-compose-backup.backup_process'', ''True'')] []"

definition stopped_record :: raw_container where
  "stopped_record =
     (sample_record ''5e6f7a8b'' [(''com.docker.compose.project'', ''app'')] [])
       \<lparr> raw_State := Some [(''Running'', False)] \<rparr>"

definition mysql_record :: raw_container where
  "mysql_record = sample_record ''3a4b5c6d''
     [(''com.docker.compose.project'', ''app''), (''restic-compose-backup.mysql'', ''True'')] []"

definition postgres_record :: raw_container where
  "postgres_record = sample_record ''7e8f9a0b''
     [(''com.docker.compose.project'', ''app''), (''restic-compose-backup.postgres'', ''True'')] []"

definition ok_delegates :: delegates where
  "ok_delegates =
     \<lparr> utils_is_true = (\<lambda>v. v = Some ''True''),
       pathlib_bind = (\<lambda>p s d. p @ ''/'' @ s @ d),
       restic_init_repo = None,
       restic_backup_files = Inr 0,
       restic_forget = Inr 0,
       restic_prune = Inr 0,
       backup_runner_run = (\<lambda>a. Inr 0),
       read_backup_log = Inr '''',
       instance_ping = (\<lambda>k c. Inr 0),
       instance_backup = (\<lambda>k c. Inr 0) \<rparr>"

definition foreign_group :: running_containers where
  "foreign_group = projr (RunningContainers (Some ''0c1d'')
      [self_record, process_record ''77aa88bb'', mysql_record])"

definition inner_group :: running_containers where
  "inner_group = projr (RunningContainers (Some ''77aa'')
      [self_record, process_record ''77aa88bb'', mysql_record])"

definition plain_group :: running_containers where
  "plain_group = projr (RunningContainers (Some ''0c1d'') [self_record, mysql_record])"

definition database_group :: running_containers where
  "database_group = projr (RunningContainers (Some ''77aa'')
      [process_record ''77aa88bb'', mysql_record, postgres_record])"

definition failing_delegates :: delegates where
  "failing_delegates =
     ok_delegates \<lparr> restic_backup_files := Inl (DelegateError ''restic''),
                    instance_backup := (\<lambda>k c. if k = MysqlContainer then Inr 1 else Inr 0) \<rparr>"

section \<open>Strings and patterns\<close>

lemma split_acc_nonempty: "split_acc sep acc s \<noteq> []"
  by (induction s arbitrary: acc) auto

lemma parse_pattern_nonempty: "parse_pattern v = Some ps \<Longrightarrow> ps \<noteq> []"
  by (auto simp: parse_pattern_def split_def split_acc_nonempty split: option.splits if_splits)

lemma str_contains_iff: "str_contains p s \<longleftrightarrow> (\<exists>a b. s = a @ p @ b)"
proof (induction s)
  case Nil
  then show ?case by auto
next
  case (Cons c cs)
  show ?case
  proof
    assume "str_contains p (c # cs)"
    then consider "prefix p (c # cs)" | "str_contains p cs" by (auto split: if_splits)
    then show "\<exists>a b. c # cs = a @ p @ b"
    proof cases
      case 1
      then obtain b where "c # cs = p @ b" by (auto simp: prefix_def)
      then have "c # cs = [] @ p @ b" by simp
      then show ?thesis by blast
    next
      case 2
      with Cons obtain a b where "cs = a @ p @ b" by auto
      then have "c # cs = (c # a) @ p @ b" by simp
      then show ?thesis by blast
    qed
  next
    assume "\<exists>a b. c # cs = a @ p @ b"
    then obtain a b where ab: "c # cs = a @ p @ b" by blast
    show "str_contains p (c # cs)"
    proof (cases a)
      case Nil
      with ab have "prefix p (c # cs)" by (simp add: prefix_def)
      then show ?thesis by simp
    next
      case (Cons x a')
      with ab have "cs = a' @ p @ b" by simp
      with Cons.IH have "str_contains p cs" by blast
      then show ?thesis by simp
    qed
  qed
qed

lemma pattern_loop_iff: "pattern_loop ps s \<longleftrightarrow> (\<exists>p\<in>set ps. str_contains p s)"
  by (induction ps) auto

lemma include_loop_eq:
  "include_loop ps ms acc = acc @ filter (\<lambda>m. pattern_loop ps (source m)) ms"
  by (induction ms arbitrary: acc) auto

lemma exclude_loop_eq:
  "exclude_loop ps ms acc = acc @ filter (\<lambda>m. \<not> pattern_loop ps (source m)) ms"
  by (induction ms arbitrary: acc) auto

section \<open>Container construction\<close>

lemma Container_Inr_fields:
  assumes "Container d = Inr c"
  shows "c_data c = d"
    and "\<exists>ls. c_labels c = ls \<and> c_include c = parse_pattern (labels_get ls ''restic-compose-backup.volumes.include'' None)
          \<and> c_exclude c = parse_pattern (labels_get ls ''restic-compose-backup.volumes.exclude'' None)"
  using assms by (auto simp: Container_def split: option.splits if_splits)

lemma Container_include_nonempty: "Container d = Inr c \<Longrightarrow> c_include c \<noteq> Some []"
  using Container_Inr_fields(2) parse_pattern_nonempty by metis

lemma Container_exclude_nonempty: "Container d = Inr c \<Longrightarrow> c_exclude c \<noteq> Some []"
  using Container_Inr_fields(2) parse_pattern_nonempty by metis

lemma Container_sample:
  "Container (sample_record i ls ms) =
     Inr \<lparr> c_data = sample_record i ls ms, c_state = [(''Running'', True)],
           c_config = \<lparr> cfg_Labels = Some ls, cfg_Image = Some ''backup:latest'', cfg_Env = Some [] \<rparr>,
           c_mounts = map Mount ms, c_labels = ls,
           c_include = parse_pattern (labels_get ls ''restic-compose-backup.volumes.include'' None),
           c_exclude = parse_pattern (labels_get ls ''restic-compose-backup.volumes.exclude'' None) \<rparr>"
  by (simp add: Container_def sample_record_def)

lemmas discovery_eval =
  RunningContainers_def Container_def sample_record_def self_record_def twin_record_def
  process_record_def stopped_record_def is_backup_process_container_def get_label_def
  labels_get_def dict_get_def project_name_def is_oneoff_def container_id_def
  parse_pattern_def is_running_def Let_def

text \<open>
  Claim C10, as amended. For every raw record whose mount list is present, construction
  fails with a \<open>MalformedRecord\<close> error exactly when the running-state block is absent
  or empty, the configuration block is absent, or the configuration's labels map is absent;
  it succeeds exactly when none of these holds.
\<close>

theorem Container_MalformedRecord:
  assumes "raw_Mounts d = Some ms"
  shows "((\<exists>e. Container d = Inl e \<and> MalformedRecord e) \<longleftrightarrow>
           (raw_State d = None \<or> raw_State d = Some [] \<or> raw_Config d = None \<or>
            (\<exists>cfg. raw_Config d = Some cfg \<and> cfg_Labels cfg = None)))
       \<and> ((\<exists>c. Container d = Inr c) \<longleftrightarrow>
           \<not> (raw_State d = None \<or> raw_State d = Some [] \<or> raw_Config d = None \<or>
            (\<exists>cfg. raw_Config d = Some cfg \<and> cfg_Labels cfg = None)))"
proof (cases "raw_State d")
  case None
  with assms show ?thesis by (simp add: Container_def MalformedRecord_def)
next
  case (Some st)
  with assms show ?thesis
    by (cases "raw_Config d") (auto simp: Container_def MalformedRecord_def split: option.splits)
qed

theorem Container_MalformedRecord_witness:
  "raw_Mounts (sample_record ''0c1d2e3f'' [] []) = Some [] \<and>
   (\<exists>c. Container (sample_record ''0c1d2e3f'' [] []) = Inr c) \<and>
   raw_Mounts ((sample_record ''0c1d2e3f'' [] []) \<lparr> raw_Config := None \<rparr>) = Some [] \<and>
   (\<exists>e. Container ((sample_record ''0c1d2e3f'' [] []) \<lparr> raw_Config := None \<rparr>) = Inl e \<and> MalformedRecord e)"
proof -
  have h1: "raw_Mounts (sample_record ''0c1d2e3f'' [] []) = Some []"
    by (simp add: sample_record_def)
  have h2: "raw_Mounts ((sample_record ''0c1d2e3f'' [] []) \<lparr> raw_Config := None \<rparr>) = Some []"
    by (simp add: sample_record_def)
  from Container_MalformedRecord [OF h1] have "\<exists>c. Container (sample_record ''0c1d2e3f'' [] []) = Inr c"
    by (simp add: sample_record_def)
  moreover from Container_MalformedRecord [OF h2]
  have "\<exists>e. Container ((sample_record ''0c1d2e3f'' [] []) \<lparr> raw_Config := None \<rparr>) = Inl e \<and> MalformedRecord e"
    by (simp add: sample_record_def)
  ultimately show ?thesis using h1 h2 by simp
qed

text \<open>
  The claim as first stated fails: a record whose running-state block is present and empty
  has all three blocks and is refused; a record without a mount list fails with
  \<open>TypeError\<close>, which is no \<open>MalformedRecord\<close>, whatever else is absent.
\<close>

theorem Container_empty_State_counterexample:
  "Container \<lparr> raw_Id = ''0c1d2e3f'', raw_Name = ''/web'', raw_State = Some [],
       raw_Config = Some \<lparr> cfg_Labels = Some [], cfg_Image = None, cfg_Env = None \<rparr>,
       raw_Mounts = Some [] \<rparr> = Inl (ValueError ''Container meta missing State'') \<and>
   Container \<lparr> raw_Id = ''0c1d2e3f'', raw_Name = ''/web'', raw_State = None,
       raw_Config = None, raw_Mounts = None \<rparr> = Inl TypeError \<and>
   \<not> MalformedRecord TypeError"
  by (simp add: Container_def MalformedRecord_def)

text \<open>
  Claim C5. \<open>get_label\<close> never raises, but it returns None for an absent key whatever
  default the caller passes: on a container without labels, \<open>get_label\<close> with default
  \<open>''\<close> is None, and so are \<open>service_name\<close> and \<open>project_name\<close>, where the claim
  says the empty string.
\<close>

theorem get_label_ignores_default:
  "Container (sample_record ''0c1d2e3f'' [] []) = Inr (projr (Container (sample_record ''0c1d2e3f'' [] []))) \<and>
   get_label (projr (Container (sample_record ''0c1d2e3f'' [] []))) ''com.docker.compose.service'' (Some '''') = None \<and>
   service_name (projr (Container (sample_record ''0c1d2e3f'' [] []))) = None \<and>
   project_name (projr (Container (sample_record ''0c1d2e3f'' [] []))) = None"
  by (simp add: Container_sample service_name_def project_name_def get_label_def labels_get_def dict_get_def)

section \<open>Mount filter\<close>

text \<open>
  Claim C9. For every constructed container, \<open>filter_mounts\<close> returns, in the order of
  the mounts: with an include list, the mounts whose source has one of its patterns as a
  contiguous substring (characters compared as they are); otherwise, with an exclude list,
  the mounts whose source has none of its patterns; otherwise all mounts. With an include
  list, changing the exclude list changes nothing.
\<close>

theorem filter_mounts_spec:
  assumes "Container d = Inr c"
  shows "filter_mounts c =
     (case c_include c of
        Some inc \<Rightarrow> filter (\<lambda>m. \<exists>p\<in>set inc. \<exists>a b. source m = a @ p @ b) (c_mounts c)
      | None \<Rightarrow>
          (case c_exclude c of
             Some exc \<Rightarrow> filter (\<lambda>m. \<forall>p\<in>set exc. \<not> (\<exists>a b. source m = a @ p @ b)) (c_mounts c)
           | None \<Rightarrow> c_mounts c))
     \<and> (\<forall>e. c_include c \<noteq> None \<longrightarrow> filter_mounts (c\<lparr>c_exclude := e\<rparr>) = filter_mounts c)"
proof -
  have i: "c_include c \<noteq> Some []" and e: "c_exclude c \<noteq> Some []"
    using assms Container_include_nonempty Container_exclude_nonempty by blast+
  show ?thesis using i e
    by (auto simp: filter_mounts_def include_loop_eq exclude_loop_eq pattern_loop_iff
        str_contains_iff split: option.splits)
qed

theorem filter_mounts_spec_witness:
  "Container web_record = Inr (projr (Container web_record)) \<and>
   map source (filter_mounts (projr (Container web_record))) = [''/srv/files/media'']"
proof -
  have c: "Container web_record = Inr (projr (Container web_record))"
    by (simp add: web_record_def Container_sample)
  have inc: "c_include (projr (Container web_record)) = Some [''media'']"
    by (simp add: web_record_def Container_sample labels_get_def dict_get_def parse_pattern_def
        strip_def is_space_def split_def)
  have ms: "map source (c_mounts (projr (Container web_record))) = [''/srv/files/media'', ''/srv/files/stuff'']"
    by (simp add: web_record_def Container_sample)
  have m1: "\<exists>a b. ''/srv/files/media'' = a @ ''media'' @ b"
    using str_contains_iff [of "''media''" "''/srv/files/media''"] by simp
  have m2: "\<not> (\<exists>a b. ''/srv/files/stuff'' = a @ ''media'' @ b)"
    using str_contains_iff [of "''media''" "''/srv/files/stuff''"] by simp
  have "filter_mounts (projr (Container web_record)) =
      filter (\<lambda>m. \<exists>p\<in>set [''media'']. \<exists>a b. source m = a @ p @ b) (c_mounts (projr (Container web_record)))"
    using filter_mounts_spec [OF c] inc by simp
  then have "map source (filter_mounts (projr (Container web_record))) =
     filter (\<lambda>s. \<exists>a b. s = a @ ''media'' @ b) (map source (c_mounts (projr (Container web_record))))"
    by (simp add: filter_map comp_def)
  with ms m1 m2 c show ?thesis by simp
qed

section \<open>Discovery\<close>

lemma find_this_container_no_match:
  "filter (\<lambda>d. prefix h (raw_Id d)) recs = [] \<Longrightarrow>
   find_this_container (Some h) recs this = Inr this"
  by (induction recs arbitrary: this) (auto split: if_splits)

lemma find_this_container_last:
  assumes "map Container recs = map Inr cs"
  shows "find_this_container (Some h) recs this =
     Inr (if filter (\<lambda>c. prefix h (container_id c)) cs = [] then this
          else Some (last (filter (\<lambda>c. prefix h (container_id c)) cs)))"
  using assms
proof (induction recs arbitrary: this cs)
  case Nil
  then show ?case by simp
next
  case (Cons d ds)
  then obtain c cs' where cs: "cs = c # cs'" and c: "Container d = Inr c"
    and rest: "map Container ds = map Inr cs'" by (cases cs) auto
  from c have id: "container_id c = raw_Id d"
    by (auto simp: container_id_def Container_def split: option.splits if_splits)
  show ?case using Cons.IH [OF rest] cs c id by simp
qed

lemma gather_result:
  "gather this recs bpc cs0 = Inr (bpc', cs') \<Longrightarrow>
   \<exists>cs. map Container recs = map Inr cs \<and>
     bpc' = (if filter is_backup_process_container cs = [] then bpc
             else Some (last (filter is_backup_process_container cs))) \<and>
     cs' = cs0 @ filter (is_peer this) cs"
proof (induction recs arbitrary: bpc cs0)
  case Nil
  then show ?case by simp
next
  case (Cons d ds)
  from Cons.prems obtain c where c: "Container d = Inr c"
    by (auto split: sum.splits)
  let ?b = "if is_backup_process_container c then Some c else bpc"
  let ?cs = "if is_peer this c then cs0 @ [c] else cs0"
  from Cons.prems c have "gather this ds ?b ?cs = Inr (bpc', cs')"
    by (auto simp: is_peer_def Let_def split: if_splits)
  from Cons.IH [OF this] obtain cs where
    m: "map Container ds = map Inr cs" and
    b: "bpc' = (if filter is_backup_process_container cs = [] then ?b
             else Some (last (filter is_backup_process_container cs)))" and
    p: "cs' = ?cs @ filter (is_peer this) cs" by blast
  have "map Container (d # ds) = map Inr (c # cs)" using m c by simp
  moreover have "bpc' = (if filter is_backup_process_container (c # cs) = [] then bpc
             else Some (last (filter is_backup_process_container (c # cs))))"
    using b by simp
  moreover have "cs' = cs0 @ filter (is_peer this) (c # cs)" using p by simp
  ultimately show ?case by blast
qed

lemma gather_succeeds:
  "map Container recs = map Inr cs \<Longrightarrow> \<exists>r. gather this recs bpc cs0 = Inr r"
proof (induction recs arbitrary: bpc cs0 cs)
  case Nil
  then show ?case by simp
next
  case (Cons d ds)
  then obtain c cs' where "Container d = Inr c" "map Container ds = map Inr cs'"
    by (cases cs) auto
  with Cons.IH show ?case by (simp add: Let_def)
qed

lemma RunningContainers_Inr:
  assumes "RunningContainers hostname recs = Inr rc"
  shows "\<exists>bpc cs. gather (this_container rc) recs None [] = Inr (bpc, cs) \<and>
           backup_process_container rc = bpc \<and> containers rc = cs"
  using assms
  by (auto simp: RunningContainers_def split: sum.splits option.splits prod.splits)

lemma all_constructed:
  "(\<forall>d\<in>set recs. \<exists>c. Container d = Inr c) \<Longrightarrow> \<exists>cs. map Container recs = map Inr cs"
proof (induction recs)
  case Nil
  then show ?case by simp
next
  case (Cons d ds)
  then obtain c cs where "Container d = Inr c" "map Container ds = map Inr cs" by auto
  then have "map Container (d # ds) = map Inr (c # cs)" by simp
  then show ?case by blast
qed

lemma filter_ids:
  assumes "map Container recs = map Inr cs"
  shows "map Container (filter (\<lambda>d. prefix h (raw_Id d)) recs)
       = map Inr (filter (\<lambda>c. prefix h (container_id c)) cs)"
  using assms
proof (induction recs arbitrary: cs)
  case Nil
  then show ?case by simp
next
  case (Cons d ds)
  then obtain c cs' where cs: "cs = c # cs'" and c: "Container d = Inr c"
    and rest: "map Container ds = map Inr cs'" by (cases cs) auto
  from c have id: "container_id c = raw_Id d"
    by (auto simp: container_id_def Container_def split: option.splits if_splits)
  show ?case using Cons.IH [OF rest] cs c id by simp
qed

text \<open>
  Claim C2, as amended. Discovery fails with \<open>SelfNotFound\<close> (the \<open>ValueError\<close>
  ``Cannot find metadata for backup container'') when no record's id starts with the host
  identifier. When at least one does and every record is well-formed, discovery succeeds and
  \<open>this_container\<close> is built from the last such record in the order of the list: from
  the only one when there is exactly one.
\<close>

theorem RunningContainers_this_container:
  "(filter (\<lambda>d. prefix h (raw_Id d)) recs = [] \<longrightarrow>
      RunningContainers (Some h) recs = Inl (ValueError ''Cannot find metadata for backup container''))
   \<and> (filter (\<lambda>d. prefix h (raw_Id d)) recs \<noteq> [] \<and> (\<forall>d\<in>set recs. \<exists>c. Container d = Inr c) \<longrightarrow>
      (\<exists>rc. RunningContainers (Some h) recs = Inr rc \<and>
            Container (last (filter (\<lambda>d. prefix h (raw_Id d)) recs)) = Inr (this_container rc)))"
proof (intro conjI impI)
  assume "filter (\<lambda>d. prefix h (raw_Id d)) recs = []"
  then show "RunningContainers (Some h) recs = Inl (ValueError ''Cannot find metadata for backup container'')"
    by (simp add: RunningContainers_def find_this_container_no_match)
next
  assume a: "filter (\<lambda>d. prefix h (raw_Id d)) recs \<noteq> [] \<and> (\<forall>d\<in>set recs. \<exists>c. Container d = Inr c)"
  then obtain cs where cs: "map Container recs = map Inr cs" using all_constructed by blast
  let ?ms = "filter (\<lambda>d. prefix h (raw_Id d)) recs"
  let ?mc = "filter (\<lambda>c. prefix h (container_id c)) cs"
  have f: "map Container ?ms = map Inr ?mc" using filter_ids [OF cs] .
  with a have ne: "?mc \<noteq> []" by auto
  have "Container (last ?ms) = last (map Container ?ms)" using a by (simp add: last_map)
  also have "\<dots> = Inr (last ?mc)" using f ne by (simp add: last_map)
  finally have l: "Container (last ?ms) = Inr (last ?mc)" .
  have ft: "find_this_container (Some h) recs None = Inr (Some (last ?mc))"
    using find_this_container_last [OF cs] ne by simp
  obtain r where "gather (last ?mc) recs None [] = Inr r" using gather_succeeds [OF cs] by blast
  with ft l show "\<exists>rc. RunningContainers (Some h) recs = Inr rc \<and>
            Container (last ?ms) = Inr (this_container rc)"
    by (cases r) (simp add: RunningContainers_def)
qed

theorem RunningContainers_this_container_witness:
  "RunningContainers (Some ''ffff'') [self_record, process_record ''77aa88bb''] =
      Inl (ValueError ''Cannot find metadata for backup container'') \<and>
   (\<exists>rc. RunningContainers (Some ''0c1d'') [self_record, process_record ''77aa88bb''] = Inr rc \<and>
         Container self_record = Inr (this_container rc))"
  using RunningContainers_this_container [of "''ffff''" "[self_record, process_record ''77aa88bb'']"]
    RunningContainers_this_container [of "''0c1d''" "[self_record, process_record ''77aa88bb'']"]
  by (simp add: discovery_eval)

text \<open>
  The claim as first stated fails: with two records whose ids start with the host
  identifier, discovery does not fail; it returns the second as \<open>this_container\<close>.
\<close>

theorem RunningContainers_two_matches_counterexample:
  "map_sum id (container_id \<circ> this_container)
     (RunningContainers (Some ''0c1d'') [self_record, twin_record]) = Inr ''0c1d9a8b''"
  by (simp add: discovery_eval)

lemma mixed_group_eq: "RunningContainers (Some ''0c1d'') [self_record, process_record ''77aa88bb'', stopped_record]
   = Inr (projr (RunningContainers (Some ''0c1d'') [self_record, process_record ''77aa88bb'', stopped_record]))"
  by (simp add: discovery_eval)

text \<open>
  Claim C4, as amended. After a successful discovery, \<open>backup_process_container\<close> is the
  last of all constructed records, this container included, that carries the backup-process
  marker label, and None when no record carries it.
\<close>

theorem RunningContainers_backup_process_container:
  assumes "RunningContainers hostname recs = Inr rc"
  shows "\<exists>cs. map Container recs = map Inr cs \<and>
     backup_process_container rc =
       (if filter is_backup_process_container cs = [] then None
        else Some (last (filter is_backup_process_container cs)))"
  using RunningContainers_Inr [OF assms] gather_result by blast

theorem RunningContainers_backup_process_container_witness:
  "map_option container_id (backup_process_container
      (projr (RunningContainers (Some ''0c1d'') [self_record, process_record ''77aa88bb'', stopped_record])))
   = Some ''77aa88bb''"
proof -
  from RunningContainers_backup_process_container [OF mixed_group_eq]
  obtain cs where m: "map Container [self_record, process_record ''77aa88bb'', stopped_record] = map Inr cs"
    and b: "backup_process_container
      (projr (RunningContainers (Some ''0c1d'') [self_record, process_record ''77aa88bb'', stopped_record])) =
       (if filter is_backup_process_container cs = [] then None
        else Some (last (filter is_backup_process_container cs)))" by blast
  from m obtain c1 c2 c3 where cs: "cs = [c1, c2, c3]" and c1: "Container self_record = Inr c1"
     and c2: "Container (process_record ''77aa88bb'') = Inr c2" and c3: "Container stopped_record = Inr c3"
    by (auto simp: Cons_eq_map_conv)
  have "\<not> is_backup_process_container c1" "is_backup_process_container c2"
       "\<not> is_backup_process_container c3" "container_id c2 = ''77aa88bb''"
    using c1 c2 c3 by (auto simp: discovery_eval)
  with b cs show ?thesis by simp
qed

text \<open>
  The claim as first stated fails: of two marked records other than this container, the
  second one is kept, not the first.
\<close>

theorem RunningContainers_last_marker_counterexample:
  "map_sum id (map_option container_id \<circ> backup_process_container)
     (RunningContainers (Some ''0c1d'')
        [self_record, process_record ''77aa88bb'', process_record ''99cc00dd'']) = Inr (Some ''99cc00dd'')"
  by (simp add: discovery_eval)

text \<open>
  Claim C6, as amended. After a successful discovery, \<open>containers\<close> holds, in the order
  of the list, exactly the constructed records whose project name equals this container's,
  that are not one-off and whose id differs from this container's. The running state is not
  looked at.
\<close>

theorem RunningContainers_containers:
  assumes "RunningContainers hostname recs = Inr rc"
  shows "\<exists>cs. map Container recs = map Inr cs \<and>
     containers rc =
       filter (\<lambda>c. project_name c = project_name (this_container rc) \<and> \<not> is_oneoff c \<and>
                   container_id c \<noteq> container_id (this_container rc)) cs"
proof -
  from RunningContainers_Inr [OF assms] gather_result [of "this_container rc" recs None "[]"]
  obtain cs where "map Container recs = map Inr cs"
    "containers rc = filter (is_peer (this_container rc)) cs" by auto
  then show ?thesis unfolding is_peer_def by blast
qed

theorem RunningContainers_containers_witness:
  "map container_id (containers
      (projr (RunningContainers (Some ''0c1d'')
         [self_record, process_record ''77aa88bb'', stopped_record])))
   = [''77aa88bb'', ''5e6f7a8b'']"
proof -
  let ?rc = "projr (RunningContainers (Some ''0c1d'')
         [self_record, process_record ''77aa88bb'', stopped_record])"
  from RunningContainers_containers [OF mixed_group_eq]
  obtain cs where m: "map Container [self_record, process_record ''77aa88bb'', stopped_record] = map Inr cs"
    and p: "containers ?rc =
       filter (\<lambda>c. project_name c = project_name (this_container ?rc) \<and> \<not> is_oneoff c \<and>
                   container_id c \<noteq> container_id (this_container ?rc)) cs" by blast
  from m obtain c1 c2 c3 where cs: "cs = [c1, c2, c3]" and c1: "Container self_record = Inr c1"
     and c2: "Container (process_record ''77aa88bb'') = Inr c2" and c3: "Container stopped_record = Inr c3"
    by (auto simp: Cons_eq_map_conv)
  have t: "this_container ?rc = c1" using c1 by (simp add: discovery_eval)
  have "container_id c1 = ''0c1d2e3f''" "container_id c2 = ''77aa88bb''"
       "container_id c3 = ''5e6f7a8b''" "project_name c1 = Some ''app''"
       "project_name c2 = Some ''app''" "project_name c3 = Some ''app''"
       "\<not> is_oneoff c2" "\<not> is_oneoff c3"
    using c1 c2 c3 by (auto simp: discovery_eval)
  with p cs t show ?thesis by simp
qed

text \<open>
  The claim as first stated fails: a record of the project that is not running is appended
  to \<open>containers\<close>.
\<close>

theorem RunningContainers_stopped_peer_counterexample:
  "map_sum id (map (\<lambda>c. (container_id c, is_running c)) \<circ> containers)
     (RunningContainers (Some ''0c1d'') [self_record, stopped_record]) = Inr [(''5e6f7a8b'', False)]"
  by (simp add: discovery_eval)

section \<open>The inner backup process\<close>

lemmas command_eval =
  start_backup_process_def cannot_run_here_def status_def containers_for_backup_def backup_enabled_def
  database_backup_enabled_def volume_backup_enabled_def mysql_backup_enabled_def
  mariadb_backup_enabled_def postgresql_backup_enabled_def instance_of_def cleanup_def
  ok_delegates_def mysql_record_def postgres_record_def

text \<open>
  Claim C1. The inner command returns without any backup only when no record carries the
  marker label. In a group whose backup-process container is another container than the
  one the command runs in, the guard does not abort: the volume backup and the database
  backup run, where the claim says the command aborts.
\<close>

theorem start_backup_process_foreign_marker:
  "RunningContainers (Some ''0c1d'') [self_record, process_record ''77aa88bb'', mysql_record]
     = Inr foreign_group \<and>
   \<not> is_backup_process_container (this_container foreign_group) \<and>
   \<not> container_eq (this_container foreign_group) (backup_process_container foreign_group) \<and>
   start_backup_process ok_delegates foreign_group =
     ([Ping MysqlContainer ''3a4b5c6d'', BackupFiles, Backup MysqlContainer ''3a4b5c6d'',
       Forget, Prune], Exited 1)"
  by (simp add: foreign_group_def discovery_eval command_eval)

text \<open>
  Claim C3. In a run whose targets all succeed, a non-zero result of \<open>forget\<close> leaves
  the process with exit code 0, where the claim says 1; and when \<open>forget\<close> and
  \<open>prune\<close> succeed as well, the exit code is 1, where the claim says 0.
\<close>

theorem start_backup_process_cleanup_exit_code:
  "RunningContainers (Some ''77aa'') [self_record, process_record ''77aa88bb'', mysql_record]
     = Inr inner_group \<and>
   container_eq (this_container inner_group) (backup_process_container inner_group) \<and>
   start_backup_process (ok_delegates \<lparr> restic_forget := Inr 1 \<rparr>) inner_group =
     ([Ping MysqlContainer ''3a4b5c6d'', BackupFiles, Backup MysqlContainer ''3a4b5c6d'',
       Forget, Prune], Returned) \<and>
   exit_code (snd (start_backup_process (ok_delegates \<lparr> restic_forget := Inr 1 \<rparr>) inner_group)) = 0 \<and>
   exit_code (snd (start_backup_process ok_delegates inner_group)) = 1"
  by (simp add: inner_group_def discovery_eval command_eval)

text \<open>
  The guard as Python evaluates it: no container is \<open>False\<close>, so the second disjunct
  never holds and the command is refused only when no record carries the marker label.
\<close>

lemma cannot_run_here_iff: "cannot_run_here rc \<longleftrightarrow> backup_process_container rc = None"
  by (cases "backup_process_container rc") (simp_all add: cannot_run_here_def)

lemma instance_of_database:
  "database_backup_enabled dl c \<Longrightarrow> \<exists>k. instance_of dl c = Some k"
  by (auto simp: instance_of_def database_backup_enabled_def)

lemma fst_database_loop_Cons:
  "fst (database_loop dl (c # cs) errors) =
     (if database_backup_enabled dl c then
        (case instance_of dl c of
           None \<Rightarrow> fst (database_loop dl cs True)
         | Some k \<Rightarrow> Backup k (container_id c) #
             fst (database_loop dl cs
               (case instance_backup dl k c of Inl ex \<Rightarrow> True
                | Inr result \<Rightarrow> if result \<noteq> 0 then True else errors)))
      else fst (database_loop dl cs errors))"
  by (simp split: option.splits prod.splits)

lemma snd_database_loop_Cons:
  "snd (database_loop dl (c # cs) errors) =
     (if database_backup_enabled dl c then
        (case instance_of dl c of
           None \<Rightarrow> snd (database_loop dl cs True)
         | Some k \<Rightarrow>
             snd (database_loop dl cs
               (case instance_backup dl k c of Inl ex \<Rightarrow> True
                | Inr result \<Rightarrow> if result \<noteq> 0 then True else errors)))
      else snd (database_loop dl cs errors))"
  by (simp split: option.splits prod.splits)

lemma fst_status_loop_Cons:
  "fst (status_loop dl (c # cs)) =
     (if database_backup_enabled dl c then
        (case instance_of dl c of
           None \<Rightarrow> []
         | Some k \<Rightarrow>
             (case instance_ping dl k c of
                Inl e \<Rightarrow> [Ping k (container_id c)]
              | Inr ping \<Rightarrow> Ping k (container_id c) # fst (status_loop dl cs)))
      else fst (status_loop dl cs))"
  by (simp split: option.splits prod.splits sum.splits)

lemma database_loop_attempts:
  "c \<in> set cs \<Longrightarrow> database_backup_enabled dl c \<Longrightarrow> instance_of dl c = Some k \<Longrightarrow>
   Backup k (container_id c) \<in> set (fst (database_loop dl cs errors))"
proof (induction cs arbitrary: errors)
  case Nil
  then show ?case by simp
next
  case (Cons a cs)
  show ?case
  proof (cases "c = a")
    case True
    with Cons.prems show ?thesis by (simp only: fst_database_loop_Cons) simp
  next
    case False
    with Cons.prems have "c \<in> set cs" by simp
    from Cons.IH [OF this Cons.prems(2,3)] show ?thesis
      by (simp only: fst_database_loop_Cons) (simp split: option.splits)
  qed
qed

lemma database_loop_events:
  "ev \<in> set (fst (database_loop dl cs errors)) \<Longrightarrow> \<exists>k i. ev = Backup k i"
proof (induction cs arbitrary: errors)
  case Nil
  then show ?case by simp
next
  case (Cons a cs)
  from Cons.prems Cons.IH show ?case
    by (simp only: fst_database_loop_Cons) (auto split: option.splits if_splits)
qed

lemma status_loop_events:
  "ev \<in> set (fst (status_loop dl cs)) \<Longrightarrow> \<exists>k i. ev = Ping k i"
proof (induction cs)
  case Nil
  then show ?case by simp
next
  case (Cons a cs)
  from Cons.prems Cons.IH show ?case
    by (simp only: fst_status_loop_Cons) (auto split: option.splits if_splits sum.splits)
qed

lemma database_loop_errors_kept: "snd (database_loop dl cs True)"
proof (induction cs)
  case Nil
  then show ?case by simp
next
  case (Cons a cs)
  then show ?case
    by (simp only: snd_database_loop_Cons) (simp split: option.splits sum.splits)
qed

lemma database_loop_errors_failed:
  "c \<in> set cs \<Longrightarrow> database_backup_enabled dl c \<Longrightarrow> instance_of dl c = Some k \<Longrightarrow>
   target_failed (instance_backup dl k c) \<Longrightarrow> snd (database_loop dl cs errors)"
proof (induction cs arbitrary: errors)
  case Nil
  then show ?case by simp
next
  case (Cons a cs)
  show ?case
  proof (cases "c = a")
    case True
    with Cons.prems have "(case instance_backup dl k a of Inl ex \<Rightarrow> True
        | Inr result \<Rightarrow> if result \<noteq> 0 then True else errors) = True"
      by (cases "instance_backup dl k a") auto
    with True Cons.prems show ?thesis
      using database_loop_errors_kept [of dl cs] by (simp only: snd_database_loop_Cons) simp
  next
    case False
    with Cons.prems have "c \<in> set cs" by simp
    from Cons.IH [OF this Cons.prems(2,3,4)] database_loop_errors_kept [of dl cs] show ?thesis
      by (simp only: snd_database_loop_Cons) (simp split: option.splits)
  qed
qed

lemma start_backup_process_run:
  assumes "backup_process_container rc \<noteq> None" and "snd (status dl rc) = None"
  shows "\<exists>ev1 ev2 ev3 out.
     status dl rc = (ev1, None) \<and>
     fst (database_loop dl (containers_for_backup dl rc) (target_failed (restic_backup_files dl))) = ev2 \<and>
     start_backup_process dl rc = (ev1 @ [BackupFiles] @ ev2 @ ev3, out) \<and>
     (snd (database_loop dl (containers_for_backup dl rc) (target_failed (restic_backup_files dl)))
        \<longrightarrow> ev3 = [] \<and> out = Exited 1)"
proof -
  obtain ev1 where s: "status dl rc = (ev1, None)" using assms(2) by (cases "status dl rc") auto
  have g: "\<not> cannot_run_here rc" using assms(1) by (simp add: cannot_run_here_iff)
  have v: "(case restic_backup_files dl of Inl ex \<Rightarrow> True | Inr vol_result \<Rightarrow> vol_result \<noteq> 0)
      = target_failed (restic_backup_files dl)"
    by (cases "restic_backup_files dl") auto
  obtain ev2 errors where d: "database_loop dl (containers_for_backup dl rc)
      (target_failed (restic_backup_files dl)) = (ev2, errors)" by (cases "database_loop dl (containers_for_backup dl rc)
      (target_failed (restic_backup_files dl))") auto
  show ?thesis
    using s g v d by (auto simp: start_backup_process_def split: prod.splits sum.splits)
qed

text \<open>
  Claim C7. In a run of the inner command that passes its guard and whose status report
  returns, the volume backup is called and, whatever it and the other targets give (an
  exception or any exit code), the backup of every container for backup with a database
  label is called; when the volume backup or any of these database backups fails, the run
  ends with \<open>exit(1)\<close> and neither \<open>forget\<close> nor \<open>prune\<close> is called.
\<close>

theorem start_backup_process_partial_failure:
  assumes "backup_process_container rc \<noteq> None" and "snd (status dl rc) = None"
  shows "BackupFiles \<in> set (fst (start_backup_process dl rc))
    \<and> (\<forall>c\<in>set (containers_for_backup dl rc). database_backup_enabled dl c \<longrightarrow>
         (\<exists>k. instance_of dl c = Some k \<and>
              Backup k (container_id c) \<in> set (fst (start_backup_process dl rc))))
    \<and> (target_failed (restic_backup_files dl) \<or>
        (\<exists>c\<in>set (containers_for_backup dl rc). \<exists>k. database_backup_enabled dl c \<and>
            instance_of dl c = Some k \<and> target_failed (instance_backup dl k c))
        \<longrightarrow> snd (start_backup_process dl rc) = Exited 1 \<and>
            exit_code (snd (start_backup_process dl rc)) = 1 \<and>
            Forget \<notin> set (fst (start_backup_process dl rc)) \<and>
            Prune \<notin> set (fst (start_backup_process dl rc)))"
proof -
  let ?cs = "containers_for_backup dl rc"
  let ?e0 = "target_failed (restic_backup_files dl)"
  from start_backup_process_run [OF assms] obtain ev1 ev2 ev3 out where
    s: "status dl rc = (ev1, None)" and
    d: "fst (database_loop dl ?cs ?e0) = ev2" and
    r: "start_backup_process dl rc = (ev1 @ [BackupFiles] @ ev2 @ ev3, out)" and
    f: "snd (database_loop dl ?cs ?e0) \<longrightarrow> ev3 = [] \<and> out = Exited 1" by blast
  have 1: "BackupFiles \<in> set (fst (start_backup_process dl rc))" using r by simp
  have 2: "\<forall>c\<in>set ?cs. database_backup_enabled dl c \<longrightarrow>
         (\<exists>k. instance_of dl c = Some k \<and>
              Backup k (container_id c) \<in> set (fst (start_backup_process dl rc)))"
  proof (intro ballI impI)
    fix c assume c: "c \<in> set ?cs" "database_backup_enabled dl c"
    then obtain k where k: "instance_of dl c = Some k" using instance_of_database by blast
    from database_loop_attempts [OF c k, of ?e0] d
    have "Backup k (container_id c) \<in> set ev2" by simp
    with k r show "\<exists>k. instance_of dl c = Some k \<and>
              Backup k (container_id c) \<in> set (fst (start_backup_process dl rc))" by simp
  qed
  have 3: "snd (start_backup_process dl rc) = Exited 1 \<and>
            exit_code (snd (start_backup_process dl rc)) = 1 \<and>
            Forget \<notin> set (fst (start_backup_process dl rc)) \<and>
            Prune \<notin> set (fst (start_backup_process dl rc))"
    if a: "?e0 \<or> (\<exists>c\<in>set ?cs. \<exists>k. database_backup_enabled dl c \<and>
            instance_of dl c = Some k \<and> target_failed (instance_backup dl k c))"
  proof -
    have "snd (database_loop dl ?cs ?e0)"
      using a database_loop_errors_kept [of dl ?cs] database_loop_errors_failed [of _ ?cs dl _ ?e0]
      by auto
    with f have e: "ev3 = []" "out = Exited 1" by simp_all
    have "Forget \<notin> set ev1" "Prune \<notin> set ev1"
      using status_loop_events [of _ dl ?cs] s by (auto simp: status_def)
    moreover have "Forget \<notin> set ev2" "Prune \<notin> set ev2"
      using database_loop_events [of _ dl ?cs ?e0] d by auto
    ultimately show ?thesis using r e by simp
  qed
  from 1 2 3 show ?thesis by blast
qed

lemma foreign_group_eq:
  "RunningContainers (Some ''0c1d'') [self_record, process_record ''77aa88bb'', mysql_record]
     = Inr foreign_group"
  by (simp add: foreign_group_def discovery_eval mysql_record_def)

lemma plain_group_eq:
  "RunningContainers (Some ''0c1d'') [self_record, mysql_record] = Inr plain_group"
  by (simp add: plain_group_def discovery_eval mysql_record_def)

lemma database_group_eq:
  "RunningContainers (Some ''77aa'') [process_record ''77aa88bb'', mysql_record, postgres_record]
     = Inr database_group"
  by (simp add: database_group_def discovery_eval mysql_record_def postgres_record_def)

theorem start_backup_process_partial_failure_witness:
  "Backup MysqlContainer ''3a4b5c6d'' \<in> set (fst (start_backup_process failing_delegates database_group)) \<and>
   Backup PostgresContainer ''7e8f9a0b'' \<in> set (fst (start_backup_process failing_delegates database_group)) \<and>
   snd (start_backup_process failing_delegates database_group) = Exited 1 \<and>
   Forget \<notin> set (fst (start_backup_process failing_delegates database_group)) \<and>
   Prune \<notin> set (fst (start_backup_process failing_delegates database_group))"
proof -
  let ?m = "projr (Container mysql_record)"
  let ?p = "projr (Container postgres_record)"
  have h1: "backup_process_container database_group \<noteq> None"
    by (simp add: database_group_def discovery_eval mysql_record_def postgres_record_def)
  have cs: "containers_for_backup failing_delegates database_group = [?m, ?p]"
    by (simp add: database_group_def failing_delegates_def discovery_eval command_eval)
  have m: "database_backup_enabled failing_delegates ?m" "instance_of failing_delegates ?m = Some MysqlContainer"
       "container_id ?m = ''3a4b5c6d''"
    by (simp_all add: failing_delegates_def discovery_eval command_eval)
  have p: "database_backup_enabled failing_delegates ?p" "instance_of failing_delegates ?p = Some PostgresContainer"
       "container_id ?p = ''7e8f9a0b''"
    by (simp_all add: failing_delegates_def discovery_eval command_eval)
  have h2: "snd (status failing_delegates database_group) = None"
    using cs m p by (simp add: status_def failing_delegates_def ok_delegates_def)
  have f: "target_failed (restic_backup_files failing_delegates)"
    by (simp add: failing_delegates_def ok_delegates_def)
  from start_backup_process_partial_failure [OF h1 h2] cs m p f
  show ?thesis by simp
qed

section \<open>The outer backup command\<close>

lemma backup_process_running_iff:
  assumes "RunningContainers hostname recs = Inr rc"
  shows "backup_process_running rc \<longleftrightarrow>
     (\<exists>cs. map Container recs = map Inr cs \<and> (\<exists>c\<in>set cs. is_backup_process_container c))"
proof -
  from RunningContainers_Inr [OF assms] gather_result [of "this_container rc" recs None "[]"]
  obtain cs where m: "map Container recs = map Inr cs" and
    b: "backup_process_container rc =
          (if filter is_backup_process_container cs = [] then None
           else Some (last (filter is_backup_process_container cs)))" by auto
  have u: "cs' = cs" if "map Container recs = map Inr cs'" for cs'
    using that m by simp
  have "backup_process_running rc \<longleftrightarrow> (\<exists>c\<in>set cs. is_backup_process_container c)"
    using b by (auto simp: backup_process_running_def filter_empty_conv)
  with m u show ?thesis by blast
qed

text \<open>
  Claim C8. For every discovered group, \<open>backup_process_running\<close> holds exactly when
  some record carries the backup-process marker label. When it holds, \<open>backup\<close> raises
  ``Backup process already running'' and has called no collaborator: neither the repository
  initialization nor the spawn. When it does not hold, the guard passes: the repository
  initialization is called first and, once it returns and the volume mapping is built, the
  spawn is called.
\<close>

theorem backup_single_flight:
  assumes "RunningContainers hostname recs = Inr rc"
  shows "(backup_process_running rc \<longleftrightarrow>
            (\<exists>cs. map Container recs = map Inr cs \<and> (\<exists>c\<in>set cs. is_backup_process_container c)))
    \<and> (backup_process_running rc \<longrightarrow>
          backup dl rc = ([], Raised (ValueError ''Backup process already running'')))
    \<and> (\<not> backup_process_running rc \<longrightarrow>
          (\<exists>evs. fst (backup dl rc) = InitRepo # evs) \<and>
          (restic_init_repo dl = None \<and> (\<exists>m. generate_backup_mounts dl rc ''/volumes'' = Inr m) \<longrightarrow>
             (\<exists>args evs. fst (backup dl rc) = InitRepo # Run args # evs)))"
proof (intro conjI impI)
  show "backup_process_running rc \<longleftrightarrow>
            (\<exists>cs. map Container recs = map Inr cs \<and> (\<exists>c\<in>set cs. is_backup_process_container c))"
    using backup_process_running_iff [OF assms] .
next
  assume "backup_process_running rc"
  then show "backup dl rc = ([], Raised (ValueError ''Backup process already running''))"
    by (simp add: backup_def)
next
  assume "\<not> backup_process_running rc"
  then show "\<exists>evs. fst (backup dl rc) = InitRepo # evs"
    by (simp add: backup_def Let_def split: option.splits sum.splits)
next
  assume "\<not> backup_process_running rc"
    and "restic_init_repo dl = None \<and> (\<exists>m. generate_backup_mounts dl rc ''/volumes'' = Inr m)"
  then show "\<exists>args evs. fst (backup dl rc) = InitRepo # Run args # evs"
    by (auto simp: backup_def Let_def split: option.splits sum.splits)
qed

theorem backup_single_flight_witness:
  "backup ok_delegates foreign_group = ([], Raised (ValueError ''Backup process already running'')) \<and>
   (\<exists>args evs. fst (backup ok_delegates plain_group) = InitRepo # Run args # evs)"
proof -
  have r: "backup_process_running foreign_group"
    by (simp add: foreign_group_def backup_process_running_def discovery_eval mysql_record_def)
  have n: "\<not> backup_process_running plain_group"
    by (simp add: plain_group_def backup_process_running_def discovery_eval mysql_record_def)
  have i: "restic_init_repo ok_delegates = None" by (simp add: ok_delegates_def)
  have g: "generate_backup_mounts ok_delegates plain_group ''/volumes'' = Inr []"
    by (simp add: plain_group_def generate_backup_mounts_def discovery_eval command_eval)
  from backup_single_flight [OF foreign_group_eq, of ok_delegates] r
  have 1: "backup ok_delegates foreign_group = ([], Raised (ValueError ''Backup process already running''))"
    by blast
  from backup_single_flight [OF plain_group_eq, of ok_delegates] n i g
  have 2: "\<exists>args evs. fst (backup ok_delegates plain_group) = InitRepo # Run args # evs"
    by blast
  from 1 2 show ?thesis by simp
qed

end
